theory Spec2Isabelle
  imports Main "HOL-Library.Sublist"
begin

section \<open>QueryAthena: submit, poll, fetch and assemble\<close>

text \<open>
  A shallow embedding of \<^verbatim>\<open>src/query.py\<close>, the class \<^verbatim>\<open>QueryAthena\<close>.

  The class talks to three collaborators that are not part of the repository: the Athena
  client and the S3 client of boto3, and pandas. Their answers are parameters of the model:
  the two clients are records of functions stored in the object, as \<^verbatim>\<open>__init__\<close> stores
  them, and \<^verbatim>\<open>pd.read_csv\<close> is a function handed to the methods that use it. Everything
  the methods do to the outside (service calls, standard output, the logger, sleeping, the
  local file system) is recorded in an explicit world that each method takes and returns.
\<close>

subsection \<open>Python values and exceptions\<close>

text \<open>
  A dict is an association list; \<^verbatim>\<open>d[k]\<close> on a missing key raises \<^verbatim>\<open>KeyError\<close>. The
  responses of boto3 are typed as its service model shapes them: string leaves under string
  keys. The error response carried by a \<^verbatim>\<open>ClientError\<close> is a dict of dicts
  (\<^verbatim>\<open>e.response['Error']['Code']\<close>).

  The type \<open>exn\<close> stands for the instances of Python's \<^verbatim>\<open>Exception\<close>: these are what
  \<^verbatim>\<open>except Exception\<close> catches. \<open>PyException\<close> is the plain \<^verbatim>\<open>Exception(msg)\<close> that
  \<^verbatim>\<open>run_query\<close> raises itself; \<open>OtherError cls msg\<close> is any further subclass by name (a
  network failure of botocore, pandas' \<^verbatim>\<open>ParserError\<close> or \<^verbatim>\<open>EmptyDataError\<close>, ...).
\<close>

type_synonym 'v dict = "(string \<times> 'v) list"

datatype exn =
    KeyError string
  | TypeError string
  | ValueError string
  | FileNotFoundError string
  | PyException string
  | ClientError "string dict dict" string
  | OtherError string string

definition subscript :: "'v dict \<Rightarrow> string \<Rightarrow> exn + 'v" where
  "subscript d k = (case map_of d k of None \<Rightarrow> Inl (KeyError k) | Some v \<Rightarrow> Inr v)"

text \<open>\<^verbatim>\<open>res[k]\<close> where \<^verbatim>\<open>res\<close> may be \<^verbatim>\<open>None\<close>: subscripting \<^verbatim>\<open>None\<close> is a \<^verbatim>\<open>TypeError\<close>.\<close>

definition subscript_opt :: "'v dict option \<Rightarrow> string \<Rightarrow> exn + 'v" where
  "subscript_opt res k =
     (case res of
        None \<Rightarrow> Inl (TypeError (CHR 0x27 # ''NoneType' object is not subscriptable''))
      | Some d \<Rightarrow> subscript d k)"

subsection \<open>The collaborators and the object\<close>

text \<open>
  \<^verbatim>\<open>start_query_execution(QueryString, QueryExecutionContext={'Database': d},
  ResultConfiguration={'OutputLocation': o})\<close> takes the three strings.
  \<^verbatim>\<open>get_query_execution(QueryExecutionId)\<close> answers differently as time passes: its first
  argument is the number of status fetches made before this one.
  \<^verbatim>\<open>download_file(Bucket, Key, Filename)\<close> either raises or yields the blob's content,
  which the model then stores under \<open>Filename\<close> in the local file system.
\<close>

type_synonym response = "string dict"
type_synonym status_response = "string dict dict dict"

record athena_client =
  start_query_execution :: "string \<Rightarrow> string \<Rightarrow> string \<Rightarrow> exn + response"
  get_query_execution :: "nat \<Rightarrow> string \<Rightarrow> exn + status_response"

record s3_client =
  download_file :: "string \<Rightarrow> string \<Rightarrow> exn + string"

record QueryAthena =
  athena_client :: athena_client
  s3_client :: s3_client
  s3_bucket :: string
  s3_output :: string
  database :: string
  table :: string

subsection \<open>The world\<close>

datatype event =
    StartQueryExecution string string string
  | GetQueryExecution string
  | DownloadFile string string string
  | ReadCsv string nat
  | Remove string
  | Sleep nat
  | LogInfo string
  | Print string
  | PrintExn exn
  | PrintFetchError exn string

record world =
  trace :: "event list"
  polls :: nat
  files :: "string \<rightharpoonup> string"

definition emit :: "event \<Rightarrow> world \<Rightarrow> world" where
  "emit e w = w\<lparr>trace := trace w @ [e]\<rparr>"

subsection \<open>\<^verbatim>\<open>load_conf\<close>\<close>

text \<open>
  Lines 33 to 47. The \<^verbatim>\<open>print\<close> of the execution id is inside the \<^verbatim>\<open>try\<close>, so a response
  without the key \<^verbatim>\<open>QueryExecutionId\<close> ends in the handler as well. The method returns
  \<^verbatim>\<open>None\<close> or the response, and never raises.
\<close>

definition load_conf :: "QueryAthena \<Rightarrow> string \<Rightarrow> world \<Rightarrow> response option \<times> world" where
  "load_conf self query w =
     (let w1 = emit (StartQueryExecution query (database self) (s3_output self)) w in
      case start_query_execution (athena_client self) query (database self) (s3_output self) of
        Inl e \<Rightarrow> (None, emit (PrintExn e) w1)
      | Inr response \<Rightarrow>
          (case subscript response ''QueryExecutionId'' of
             Inl e \<Rightarrow> (None, emit (PrintExn e) w1)
           | Inr qid \<Rightarrow> (Some response, emit (Print (''Execution ID: '' @ qid)) w1)))"

subsection \<open>\<^verbatim>\<open>run_query\<close>\<close>

text \<open>
  One pass through the body of the \<^verbatim>\<open>while\<close> loop, lines 58 to 66: the next value of
  \<^verbatim>\<open>query_state\<close>, or a \<^verbatim>\<open>break\<close>, or an exception.
\<close>

datatype step = Continue string | Break | Raise exn

definition failure_message :: "string \<Rightarrow> string \<Rightarrow> string \<Rightarrow> string" where
  "failure_message query query_state reason =
     ''Athena query with the string \"'' @ query @ ''\" stopped with status '' @ query_state
       @ ''. More details: '' @ reason"

definition loop_body :: "QueryAthena \<Rightarrow> string \<Rightarrow> response option \<Rightarrow> world \<Rightarrow> step \<times> world" where
  "loop_body self query res w =
     (case subscript_opt res ''QueryExecutionId'' of
        Inl e \<Rightarrow> (Raise e, w)
      | Inr qid \<Rightarrow>
          (let w1 = (emit (GetQueryExecution qid) w)\<lparr>polls := polls w + 1\<rparr> in
           case get_query_execution (athena_client self) (polls w) qid of
             Inl e \<Rightarrow> (Raise e, w1)
           | Inr r \<Rightarrow>
          (case subscript r ''QueryExecution'' of
             Inl e \<Rightarrow> (Raise e, w1)
           | Inr qe \<Rightarrow>
          (case subscript qe ''Status'' of
             Inl e \<Rightarrow> (Raise e, w1)
           | Inr query_status \<Rightarrow>
          (case subscript query_status ''State'' of
             Inl e \<Rightarrow> (Raise e, w1)
           | Inr query_state \<Rightarrow>
          (let w2 = emit (LogInfo query_state) w1 in
           if query_state = ''FAILED'' \<or> query_state = ''CANCELLED'' then
             (case subscript query_status ''StateChangeReason'' of
                Inl e \<Rightarrow> (Raise e, w2)
              | Inr reason \<Rightarrow> (Raise (PyException (failure_message query query_state reason)), w2))
           else if query_state = ''SUCCEEDED'' then (Break, w2)
           else (Continue query_state, emit (Sleep 1) w2)))))))"

text \<open>
  The loop, lines 57 to 66. It has no bound: a service that answers \<^verbatim>\<open>QUEUED\<close> for ever
  keeps it running, and then the function has no value (\<open>None\<close>). \<open>Some (Inr ())\<close> is
  leaving the loop normally, by the condition or by \<^verbatim>\<open>break\<close>.
\<close>

partial_function (option) while_loop ::
  "QueryAthena \<Rightarrow> string \<Rightarrow> response option \<Rightarrow> string option \<Rightarrow> world \<Rightarrow> ((exn + unit) \<times> world) option"
where
  "while_loop self query res query_state w =
     (if query_state = Some ''QUEUED'' \<or> query_state = Some ''RUNNING'' \<or> query_state = None then
        (case loop_body self query res w of
           (Raise e, w') \<Rightarrow> Some (Inl e, w')
         | (Break, w') \<Rightarrow> Some (Inr (), w')
         | (Continue s, w') \<Rightarrow> while_loop self query res (Some s) w')
      else Some (Inr (), w))"

definition run_query ::
  "QueryAthena \<Rightarrow> string \<Rightarrow> world \<Rightarrow> ((exn + response option) \<times> world) option" where
  "run_query self query w =
     (case load_conf self query w of (res, w1) \<Rightarrow>
        (case while_loop self query res None w1 of
           None \<Rightarrow> None
         | Some (Inl e, w2) \<Rightarrow> Some (Inl e, w2)
         | Some (Inr u, w2) \<Rightarrow> Some (Inr res, emit (Print ''Query finished.'') w2)))"

subsection \<open>pandas\<close>

text \<open>
  A data frame is an ordered sequence of rows; what a row holds is left open. A chunk is a
  data frame.

  \<^verbatim>\<open>pd.read_csv(file_name, chunksize=n)\<close> either raises at once or gives an iterator. The
  iterator of a finite file is a finite object: it yields a chunk and goes on, or stops, or
  raises (a malformed line met after some chunks were read). Which content gives which
  iterator is pandas' business and a parameter of the model.

  \<^verbatim>\<open>pd.concat\<close> of a list of frames puts their rows one after the other in the order of the
  list; of the empty list it raises \<^verbatim>\<open>ValueError\<close>.
\<close>

type_synonym 'r dataframe = "'r list"

datatype 'r chunks = StopIteration | Yield "'r dataframe" "'r chunks" | Raises exn

type_synonym 'r read_csv = "string \<Rightarrow> nat \<Rightarrow> exn + 'r chunks"

definition pd_concat :: "'r dataframe list \<Rightarrow> exn + 'r dataframe" where
  "pd_concat df_parts =
     (if df_parts = [] then Inl (ValueError ''No objects to concatenate'')
      else Inr (concat df_parts))"

subsection \<open>\<^verbatim>\<open>chunk_processing\<close> and \<^verbatim>\<open>process_result\<close>\<close>

definition chunk_processing :: "'r dataframe \<Rightarrow> 'r dataframe" where
  "chunk_processing chunk = chunk"

text \<open>The \<^verbatim>\<open>for\<close> loop of lines 109 and 110, appending to \<^verbatim>\<open>df_parts\<close>.\<close>

fun for_chunk :: "'r chunks \<Rightarrow> 'r dataframe list \<Rightarrow> exn + 'r dataframe list" where
  "for_chunk StopIteration df_parts = Inr df_parts"
| "for_chunk (Raises e) df_parts = Inl e"
| "for_chunk (Yield chunk chunks) df_parts =
     for_chunk chunks (df_parts @ [chunk_processing chunk])"

text \<open>\<^verbatim>\<open>os.remove\<close>: deleting a file that is not there raises.\<close>

definition os_remove :: "string \<Rightarrow> world \<Rightarrow> (exn + unit) \<times> world" where
  "os_remove file_name w =
     (let w1 = emit (Remove file_name) w in
      if files w file_name = None then (Inl (FileNotFoundError file_name), w1)
      else (Inr (), w1\<lparr>files := (files w)(file_name := None)\<rparr>))"

text \<open>The body of the second \<^verbatim>\<open>try\<close>, lines 107 to 112.\<close>

definition read_and_concat ::
  "'r read_csv \<Rightarrow> string \<Rightarrow> world \<Rightarrow> (exn + 'r dataframe) \<times> world" where
  "read_and_concat read_csv file_name w =
     (let w1 = emit (ReadCsv file_name 10000000) w in
      case files w file_name of
        None \<Rightarrow> (Inl (FileNotFoundError file_name), w1)
      | Some content \<Rightarrow>
          (case read_csv content 10000000 of
             Inl e \<Rightarrow> (Inl e, w1)
           | Inr chunks \<Rightarrow>
               (case for_chunk chunks [] of
                  Inl e \<Rightarrow> (Inl e, w1)
                | Inr df_parts \<Rightarrow> (pd_concat df_parts, w1))))"

text \<open>
  Lines 91 to 115. The first \<^verbatim>\<open>try\<close> catches \<^verbatim>\<open>ClientError\<close> only, and its handler returns
  \<^verbatim>\<open>None\<close> (the result \<open>Inr None\<close>) after looking at \<^verbatim>\<open>e.response['Error']['Code']\<close>. The
  \<^verbatim>\<open>finally\<close> clause runs \<^verbatim>\<open>os.remove\<close> whatever the second \<^verbatim>\<open>try\<close> did; an exception of
  \<^verbatim>\<open>os.remove\<close> itself takes the place of the outcome.
\<close>

definition process_result ::
  "'r read_csv \<Rightarrow> QueryAthena \<Rightarrow> response option \<Rightarrow> world
     \<Rightarrow> (exn + 'r dataframe option) \<times> world" where
  "process_result read_csv self res w =
     (case subscript_opt res ''QueryExecutionId'' of
        Inl e \<Rightarrow> (Inl e, w)
      | Inr qid \<Rightarrow>
          (let file_name = qid @ ''.csv'';
               w1 = emit (DownloadFile (s3_bucket self) file_name file_name) w
           in case download_file (s3_client self) (s3_bucket self) file_name of
                Inl (ClientError r m) \<Rightarrow>
                  (case subscript r ''Error'' of
                     Inl e \<Rightarrow> (Inl e, w1)
                   | Inr err \<Rightarrow>
                       (case subscript err ''Code'' of
                          Inl e \<Rightarrow> (Inl e, w1)
                        | Inr code \<Rightarrow>
                            if code = ''404'' then
                              (Inr None,
                               emit (Print (''Simpson export file not found at %s. '' @ file_name)) w1)
                            else
                              (Inr None, emit (PrintFetchError (ClientError r m) file_name) w1)))
              | Inl e \<Rightarrow> (Inl e, w1)
              | Inr content \<Rightarrow>
                  (let w2 = w1\<lparr>files := (files w1)(file_name \<mapsto> content)\<rparr> in
                   case read_and_concat read_csv file_name w2 of (r, w3) \<Rightarrow>
                     (case os_remove file_name w3 of
                        (Inl e, w4) \<Rightarrow> (Inl e, w4)
                      | (Inr u, w4) \<Rightarrow>
                          (case r of
                             Inl e \<Rightarrow> (Inl e, w4)
                           | Inr df \<Rightarrow> (Inr (Some df), w4))))))"

subsection \<open>\<^verbatim>\<open>create_query\<close>\<close>

definition default_query :: "QueryAthena \<Rightarrow> string" where
  "default_query self =
     ''\<newline>        SELECT * FROM '' @ database self @ ''.'' @ table self
       @ ''\<newline>        LIMIT 10\<newline>        ''"

definition create_query ::
  "'r read_csv \<Rightarrow> QueryAthena \<Rightarrow> world \<Rightarrow> ((exn + 'r dataframe option) \<times> world) option" where
  "create_query read_csv self w =
     (case run_query self (default_query self) w of
        None \<Rightarrow> None
      | Some (Inl e, w1) \<Rightarrow> Some (Inl e, w1)
      | Some (Inr res, w1) \<Rightarrow> Some (process_result read_csv self res w1))"

section \<open>Vocabulary of the properties\<close>

text \<open>
  What one status fetch gives, read the way line 58 and line 59 read it: the dict
  \<^verbatim>\<open>query_status\<close> of fetch number \<open>i\<close>, and its \<^verbatim>\<open>State\<close>.
\<close>

definition status_at :: "QueryAthena \<Rightarrow> nat \<Rightarrow> string \<Rightarrow> exn + string dict" where
  "status_at self i qid =
     (case get_query_execution (athena_client self) i qid of
        Inl e \<Rightarrow> Inl e
      | Inr r \<Rightarrow>
          (case subscript r ''QueryExecution'' of
             Inl e \<Rightarrow> Inl e
           | Inr qe \<Rightarrow> subscript qe ''Status''))"

definition state_at :: "QueryAthena \<Rightarrow> nat \<Rightarrow> string \<Rightarrow> exn + string" where
  "state_at self i qid =
     (case status_at self i qid of Inl e \<Rightarrow> Inl e | Inr st \<Rightarrow> subscript st ''State'')"

text \<open>The world after an accepted submission: the service call and the printed id.\<close>

definition submitted :: "QueryAthena \<Rightarrow> string \<Rightarrow> string \<Rightarrow> world \<Rightarrow> world" where
  "submitted self query qid w =
     w\<lparr>trace := trace w @ [StartQueryExecution query (database self) (s3_output self),
                           Print (''Execution ID: '' @ qid)]\<rparr>"

text \<open>
  The world after the status fetches that answered \<open>ss\<close>, each followed by its log line
  and by one sleep of one second.
\<close>

definition polled :: "string \<Rightarrow> string list \<Rightarrow> world \<Rightarrow> world" where
  "polled qid ss w =
     w\<lparr>trace := trace w @ concat (map (\<lambda>s. [GetQueryExecution qid, LogInfo s, Sleep 1]) ss),
       polls := polls w + length ss\<rparr>"

text \<open>What an iterator of chunks yields before it ends, and the exception it ends in.\<close>

fun yielded :: "'r chunks \<Rightarrow> 'r dataframe list" where
  "yielded StopIteration = []"
| "yielded (Raises e) = []"
| "yielded (Yield chunk chunks) = chunk # yielded chunks"

fun raised :: "'r chunks \<Rightarrow> exn option" where
  "raised StopIteration = None"
| "raised (Raises e) = Some e"
| "raised (Yield chunk chunks) = raised chunks"

text \<open>The iterator that yields the chunks \<open>cs\<close> and stops.\<close>

definition yields :: "'r dataframe list \<Rightarrow> 'r chunks" where
  "yields cs = foldr Yield cs StopIteration"

text \<open>
  The world after an accepted submission, the answers \<open>ss\<close>, the answer \<^verbatim>\<open>SUCCEEDED\<close> and
  the closing line of \<^verbatim>\<open>run_query\<close>.
\<close>

definition succeeded :: "QueryAthena \<Rightarrow> string \<Rightarrow> string \<Rightarrow> string list \<Rightarrow> world \<Rightarrow> world" where
  "succeeded self query qid ss w =
     (polled qid ss (submitted self query qid w))
       \<lparr>trace := trace (polled qid ss (submitted self query qid w)) @
          [GetQueryExecution qid, LogInfo ''SUCCEEDED'', Print ''Query finished.''],
        polls := polls w + length ss + 1\<rparr>"

text \<open>
  The outcome of the second \<^verbatim>\<open>try\<close> statement, as a function of what the reader does with
  the content.
\<close>

definition parsed :: "'r read_csv \<Rightarrow> string \<Rightarrow> exn + 'r dataframe option" where
  "parsed read_csv content =
     (case read_csv content 10000000 of
        Inl e \<Rightarrow> Inl e
      | Inr chunks \<Rightarrow>
          (case raised chunks of
             Some e \<Rightarrow> Inl e
           | None \<Rightarrow>
               (case pd_concat (map chunk_processing (yielded chunks)) of
                  Inl e \<Rightarrow> Inl e
                | Inr df \<Rightarrow> Inr (Some df))))"

subsection \<open>Concrete collaborators\<close>

text \<open>
  A scripted service in the manner of a test double: the submission has one fixed outcome,
  fetch number \<open>i\<close> answers with entry \<open>i\<close> of a script of states and optional reasons, and
  the download has one fixed outcome.
\<close>

definition status_reply :: "string \<times> string option \<Rightarrow> status_response" where
  "status_reply sr =
     [(''QueryExecution'',
       [(''Status'',
         (''State'', fst sr) #
         (case snd sr of None \<Rightarrow> [] | Some reason \<Rightarrow> [(''StateChangeReason'', reason)]))])]"

definition scripted :: "(string \<times> string option) list \<Rightarrow> nat \<Rightarrow> string \<Rightarrow> exn + status_response" where
  "scripted script i qid =
     (if i < length script then Inr (status_reply (script ! i))
      else Inl (OtherError ''StopIteration'' []))"

definition mock ::
  "exn + response \<Rightarrow> (string \<times> string option) list \<Rightarrow> exn + string \<Rightarrow> QueryAthena" where
  "mock submission script blob =
     \<lparr>athena_client =
        \<lparr>start_query_execution = (\<lambda>query db out. submission),
         get_query_execution = scripted script\<rparr>,
      s3_client = \<lparr>download_file = (\<lambda>bucket key. blob)\<rparr>,
      s3_bucket = ''results'',
      s3_output = ''s3://results/out/'',
      database = ''db'',
      table = ''tbl''\<rparr>"

definition accepted :: response where
  "accepted = [(''QueryExecutionId'', ''q-1'')]"

definition world0 :: world where
  "world0 = \<lparr>trace = [], polls = 0, files = Map.empty\<rparr>"

definition not_found :: exn where
  "not_found = ClientError [(''Error'', [(''Code'', ''404''), (''Message'', ''Not Found'')])]
     ''An error occurred (404) when calling the HeadObject operation: Not Found''"

definition reads :: "nat chunks \<Rightarrow> nat read_csv" where
  "reads chunks content chunksize = Inr chunks"

text \<open>
  What pandas' reader does with two files that hold no data row. On a file of zero bytes
  \<^verbatim>\<open>pd.read_csv\<close> raises \<^verbatim>\<open>EmptyDataError\<close> at once. On a file that holds the header line
  and nothing else, the iterator yields one chunk, a frame without rows, and then stops.
\<close>

definition header_only :: "nat read_csv" where
  "header_only content chunksize = Inr (Yield [] StopIteration)"

definition empty_file :: "nat read_csv" where
  "empty_file content chunksize = Inl (OtherError ''EmptyDataError'' ''No columns to parse from file'')"

section \<open>Properties\<close>

subsection \<open>Worlds\<close>

lemma emit_sel [simp]:
  "trace (emit e w) = trace w @ [e]" "polls (emit e w) = polls w" "files (emit e w) = files w"
  by (simp_all add: emit_def)

lemma submitted_sel [simp]:
  "polls (submitted self query qid w) = polls w" "files (submitted self query qid w) = files w"
  "trace (submitted self query qid w) =
     trace w @ [StartQueryExecution query (database self) (s3_output self),
                Print (''Execution ID: '' @ qid)]"
  by (simp_all add: submitted_def)

lemma polled_Nil [simp]: "polled qid [] w = w"
  by (simp add: polled_def)

lemma polled_sel [simp]:
  "polls (polled qid ss w) = polls w + length ss" "files (polled qid ss w) = files w"
  "trace (polled qid ss w) =
     trace w @ concat (map (\<lambda>s. [GetQueryExecution qid, LogInfo s, Sleep 1]) ss)"
  by (simp_all add: polled_def)

lemma polled_Cons: "polled qid (s # ss) w = polled qid ss (polled qid [s] w)"
  by (simp add: polled_def)

subsection \<open>Submission\<close>

lemma load_conf_accepted:
  assumes "start_query_execution (athena_client self) query (database self) (s3_output self) = Inr r"
    and "subscript r ''QueryExecutionId'' = Inr qid"
  shows "load_conf self query w = (Some r, submitted self query qid w)"
  using assms by (simp add: load_conf_def submitted_def emit_def Let_def)

subsection \<open>One pass through the loop body\<close>

lemma loop_body_continue:
  assumes "subscript r ''QueryExecutionId'' = Inr qid"
    and "state_at self (polls w) qid = Inr s"
    and "s \<noteq> ''FAILED''" "s \<noteq> ''CANCELLED''" "s \<noteq> ''SUCCEEDED''"
  shows "loop_body self query (Some r) w = (Continue s, polled qid [s] w)"
  using assms
  by (auto simp: loop_body_def subscript_opt_def state_at_def status_at_def polled_def emit_def
      Let_def split: sum.splits)

lemma loop_body_break:
  assumes "subscript r ''QueryExecutionId'' = Inr qid"
    and "state_at self (polls w) qid = Inr ''SUCCEEDED''"
  shows "loop_body self query (Some r) w =
    (Break, w\<lparr>trace := trace w @ [GetQueryExecution qid, LogInfo ''SUCCEEDED''],
              polls := polls w + 1\<rparr>)"
  using assms
  by (auto simp: loop_body_def subscript_opt_def state_at_def status_at_def emit_def Let_def
      split: sum.splits)

lemma loop_body_raise:
  assumes "subscript r ''QueryExecutionId'' = Inr qid"
    and "status_at self (polls w) qid = Inr st"
    and "subscript st ''State'' = Inr s"
    and "s = ''FAILED'' \<or> s = ''CANCELLED''"
    and "subscript st ''StateChangeReason'' = Inr reason"
  shows "loop_body self query (Some r) w =
    (Raise (PyException (failure_message query s reason)),
     w\<lparr>trace := trace w @ [GetQueryExecution qid, LogInfo s], polls := polls w + 1\<rparr>)"
  using assms
  by (auto simp: loop_body_def subscript_opt_def status_at_def emit_def Let_def
      split: sum.splits)

subsection \<open>The loop\<close>

text \<open>
  While the service answers \<^verbatim>\<open>QUEUED\<close> or \<^verbatim>\<open>RUNNING\<close> the loop goes round: after the
  answers \<open>ss\<close> it stands where it stood, with the last answer in \<^verbatim>\<open>query_state\<close>.
\<close>

lemma while_loop_pending:
  assumes "subscript r ''QueryExecutionId'' = Inr qid"
    and "\<forall>i<length ss. state_at self (polls w + i) qid = Inr (ss ! i)"
    and "set ss \<subseteq> {''QUEUED'', ''RUNNING''}"
    and "qs = None \<or> qs = Some ''QUEUED'' \<or> qs = Some ''RUNNING''"
  shows "while_loop self query (Some r) qs w =
         while_loop self query (Some r) (if ss = [] then qs else Some (last ss)) (polled qid ss w)"
  using assms(2-)
proof (induction ss arbitrary: qs w)
  case Nil
  then show ?case by simp
next
  case (Cons s ss)
  from Cons.prems(1) have s0: "state_at self (polls w) qid = Inr s"
    by fastforce
  from Cons.prems(2) have s: "s = ''QUEUED'' \<or> s = ''RUNNING''"
    by simp
  have body: "loop_body self query (Some r) w = (Continue s, polled qid [s] w)"
    using assms(1) s0 s by (intro loop_body_continue) auto
  have rest: "\<forall>i<length ss. state_at self (polls (polled qid [s] w) + i) qid = Inr (ss ! i)"
  proof (intro allI impI)
    fix i assume "i < length ss"
    then have "state_at self (polls w + Suc i) qid = Inr ((s # ss) ! Suc i)"
      using Cons.prems(1) by (metis Suc_less_eq length_Cons)
    then show "state_at self (polls (polled qid [s] w) + i) qid = Inr (ss ! i)"
      by simp
  qed
  have "while_loop self query (Some r) qs w =
        while_loop self query (Some r) (Some s) (polled qid [s] w)"
    using Cons.prems(3) body by (subst while_loop.simps) auto
  also have "\<dots> = while_loop self query (Some r) (if ss = [] then Some s else Some (last ss))
                    (polled qid ss (polled qid [s] w))"
    using Cons.prems(2) s by (intro Cons.IH[OF rest]) auto
  finally show ?case
    by (simp add: polled_Cons[of qid s ss])
qed

lemma pending_last:
  assumes "set ss \<subseteq> {''QUEUED'', ''RUNNING''}"
  shows "(if ss = [] then None else Some (last ss)) = None
       \<or> (if ss = [] then None else Some (last ss)) = Some ''QUEUED''
       \<or> (if ss = [] then None else Some (last ss)) = Some ''RUNNING''"
proof (cases "ss = []")
  case True
  then show ?thesis by simp
next
  case False
  then have "last ss \<in> set ss" by simp
  with assms have "last ss \<in> {''QUEUED'', ''RUNNING''}" by blast
  then show ?thesis using False by auto
qed

lemma while_loop_failed:
  assumes "subscript r ''QueryExecutionId'' = Inr qid"
    and "\<forall>i<length ss. state_at self (polls w + i) qid = Inr (ss ! i)"
    and "set ss \<subseteq> {''QUEUED'', ''RUNNING''}"
    and "status_at self (polls w + length ss) qid = Inr st"
    and "subscript st ''State'' = Inr s"
    and "s = ''FAILED'' \<or> s = ''CANCELLED''"
    and "subscript st ''StateChangeReason'' = Inr reason"
  shows "while_loop self query (Some r) None w =
         Some (Inl (PyException (failure_message query s reason)),
               (polled qid ss w)
                 \<lparr>trace := trace (polled qid ss w) @ [GetQueryExecution qid, LogInfo s],
                  polls := polls w + length ss + 1\<rparr>)"
proof -
  let ?w = "polled qid ss w"
  let ?qs = "if ss = [] then None else Some (last ss)"
  have qs: "?qs = None \<or> ?qs = Some ''QUEUED'' \<or> ?qs = Some ''RUNNING''"
    using assms(3) by (rule pending_last)
  have "loop_body self query (Some r) ?w =
    (Raise (PyException (failure_message query s reason)),
     ?w\<lparr>trace := trace ?w @ [GetQueryExecution qid, LogInfo s], polls := polls ?w + 1\<rparr>)"
    using assms by (intro loop_body_raise[where st = st]) simp_all
  then have "while_loop self query (Some r) ?qs ?w =
         Some (Inl (PyException (failure_message query s reason)),
               ?w\<lparr>trace := trace ?w @ [GetQueryExecution qid, LogInfo s], polls := polls ?w + 1\<rparr>)"
    using qs by (subst while_loop.simps) auto
  then show ?thesis
    using while_loop_pending[OF assms(1-3), of None query] by simp
qed

lemma while_loop_succeeded:
  assumes "subscript r ''QueryExecutionId'' = Inr qid"
    and "\<forall>i<length ss. state_at self (polls w + i) qid = Inr (ss ! i)"
    and "set ss \<subseteq> {''QUEUED'', ''RUNNING''}"
    and "state_at self (polls w + length ss) qid = Inr ''SUCCEEDED''"
  shows "while_loop self query (Some r) None w =
         Some (Inr (),
               (polled qid ss w)
                 \<lparr>trace := trace (polled qid ss w) @ [GetQueryExecution qid, LogInfo ''SUCCEEDED''],
                  polls := polls w + length ss + 1\<rparr>)"
proof -
  let ?w = "polled qid ss w"
  let ?qs = "if ss = [] then None else Some (last ss)"
  have qs: "?qs = None \<or> ?qs = Some ''QUEUED'' \<or> ?qs = Some ''RUNNING''"
    using assms(3) by (rule pending_last)
  have "loop_body self query (Some r) ?w =
    (Break, ?w\<lparr>trace := trace ?w @ [GetQueryExecution qid, LogInfo ''SUCCEEDED''],
               polls := polls ?w + 1\<rparr>)"
    using assms by (intro loop_body_break) simp_all
  then have "while_loop self query (Some r) ?qs ?w =
         Some (Inr (), ?w\<lparr>trace := trace ?w @ [GetQueryExecution qid, LogInfo ''SUCCEEDED''],
                          polls := polls ?w + 1\<rparr>)"
    using qs by (subst while_loop.simps) auto
  then show ?thesis
    using while_loop_pending[OF assms(1-3), of None query] by simp
qed

lemma while_loop_unknown:
  assumes "subscript r ''QueryExecutionId'' = Inr qid"
    and "\<forall>i<length ss. state_at self (polls w + i) qid = Inr (ss ! i)"
    and "set ss \<subseteq> {''QUEUED'', ''RUNNING''}"
    and "state_at self (polls w + length ss) qid = Inr s"
    and "s \<notin> {''QUEUED'', ''RUNNING'', ''SUCCEEDED'', ''FAILED'', ''CANCELLED''}"
  shows "while_loop self query (Some r) None w = Some (Inr (), polled qid (ss @ [s]) w)"
proof -
  let ?w = "polled qid ss w"
  let ?qs = "if ss = [] then None else Some (last ss)"
  have qs: "?qs = None \<or> ?qs = Some ''QUEUED'' \<or> ?qs = Some ''RUNNING''"
    using assms(3) by (rule pending_last)
  have "loop_body self query (Some r) ?w = (Continue s, polled qid [s] ?w)"
    using assms by (intro loop_body_continue) simp_all
  then have "while_loop self query (Some r) ?qs ?w =
             while_loop self query (Some r) (Some s) (polled qid [s] ?w)"
    using qs by (subst while_loop.simps) auto
  also have "\<dots> = Some (Inr (), polled qid [s] ?w)"
    using assms(5) by (subst while_loop.simps) simp
  also have "polled qid [s] ?w = polled qid (ss @ [s]) w"
    by (simp add: polled_def)
  finally show ?thesis
    using while_loop_pending[OF assms(1-3), of None query] by simp
qed

subsection \<open>The message of a failed query\<close>

lemma sublist_failure_message:
  "sublist query (failure_message query s reason)"
  "sublist s (failure_message query s reason)"
  "sublist reason (failure_message query s reason)"
proof -
  show "sublist query (failure_message query s reason)"
    unfolding failure_message_def by (rule sublist_appendI)
  have "failure_message query s reason =
        (''Athena query with the string \"'' @ query @ ''\" stopped with status '') @ s
          @ (''. More details: '' @ reason)"
    by (simp add: failure_message_def)
  then show "sublist s (failure_message query s reason)"
    by (metis sublist_appendI)
  have "failure_message query s reason =
        (''Athena query with the string \"'' @ query @ ''\" stopped with status '' @ s
          @ ''. More details: '') @ reason @ []"
    by (simp add: failure_message_def)
  then show "sublist reason (failure_message query s reason)"
    by (metis sublist_appendI)
qed

subsection \<open>Failed and cancelled queries\<close>

text \<open>
  The submission is accepted and the status fetches answer \<^verbatim>\<open>QUEUED\<close> or \<^verbatim>\<open>RUNNING\<close> any
  number of times, then \<^verbatim>\<open>FAILED\<close> or \<^verbatim>\<open>CANCELLED\<close> in a status that has the key
  \<^verbatim>\<open>StateChangeReason\<close>. Then \<^verbatim>\<open>run_query\<close> does end, and it ends by raising: the exception is
  the plain \<^verbatim>\<open>Exception\<close> whose message is built from the query text, the state and the
  reason, and each of the three is a contiguous part of that message. No handle is returned.
\<close>

lemma run_query_failed_with_reason:
  assumes "start_query_execution (athena_client self) query (database self) (s3_output self) = Inr r"
    and "subscript r ''QueryExecutionId'' = Inr qid"
    and "\<forall>i<length ss. state_at self (polls w + i) qid = Inr (ss ! i)"
    and "set ss \<subseteq> {''QUEUED'', ''RUNNING''}"
    and "status_at self (polls w + length ss) qid = Inr st"
    and "subscript st ''State'' = Inr s"
    and "s = ''FAILED'' \<or> s = ''CANCELLED''"
    and "subscript st ''StateChangeReason'' = Inr reason"
  shows "map_option fst (run_query self query w)
           = Some (Inl (PyException (failure_message query s reason)))
       \<and> sublist query (failure_message query s reason)
       \<and> sublist s (failure_message query s reason)
       \<and> sublist reason (failure_message query s reason)"
proof -
  let ?w = "submitted self query qid w"
  have "while_loop self query (Some r) None ?w =
         Some (Inl (PyException (failure_message query s reason)),
               (polled qid ss ?w)
                 \<lparr>trace := trace (polled qid ss ?w) @ [GetQueryExecution qid, LogInfo s],
                  polls := polls ?w + length ss + 1\<rparr>)"
    using assms(2-) by (intro while_loop_failed[where st = st]) simp_all
  then have "map_option fst (run_query self query w)
               = Some (Inl (PyException (failure_message query s reason)))"
    by (simp add: run_query_def load_conf_accepted[OF assms(1,2)])
  then show ?thesis
    by (simp add: sublist_failure_message)
qed

lemma run_query_failed_with_reason_example:
  "map_option fst
     (run_query
        (mock (Inr accepted) [(''QUEUED'', None), (''FAILED'', Some ''Insufficient permissions'')]
           (Inl not_found))
        ''SELECT 1'' world0)
     = Some (Inl (PyException (failure_message ''SELECT 1'' ''FAILED'' ''Insufficient permissions'')))
   \<and> sublist ''SELECT 1'' (failure_message ''SELECT 1'' ''FAILED'' ''Insufficient permissions'')
   \<and> sublist ''FAILED'' (failure_message ''SELECT 1'' ''FAILED'' ''Insufficient permissions'')
   \<and> sublist ''Insufficient permissions''
        (failure_message ''SELECT 1'' ''FAILED'' ''Insufficient permissions'')"
  using run_query_failed_with_reason
    [where self = "mock (Inr accepted)
                     [(''QUEUED'', None), (''FAILED'', Some ''Insufficient permissions'')]
                     (Inl not_found)"
       and query = "''SELECT 1''" and r = accepted and qid = "''q-1''" and ss = "[''QUEUED'']"
       and w = world0
       and st = "[(''State'', ''FAILED''), (''StateChangeReason'', ''Insufficient permissions'')]"
       and s = "''FAILED''" and reason = "''Insufficient permissions''"]
  by (simp add: mock_def scripted_def status_reply_def state_at_def status_at_def subscript_def
      accepted_def world0_def)

text \<open>
  The same answers, but the last status has no key \<^verbatim>\<open>StateChangeReason\<close>: the subscript of
  line 63 is evaluated while the message is being built, and its exception is what the loop
  ends with.
\<close>

lemma while_loop_no_reason:
  assumes "subscript r ''QueryExecutionId'' = Inr qid"
    and "\<forall>i<length ss. state_at self (polls w + i) qid = Inr (ss ! i)"
    and "set ss \<subseteq> {''QUEUED'', ''RUNNING''}"
    and "status_at self (polls w + length ss) qid = Inr st"
    and "subscript st ''State'' = Inr s"
    and "s = ''FAILED'' \<or> s = ''CANCELLED''"
    and "subscript st ''StateChangeReason'' = Inl e"
  shows "while_loop self query (Some r) None w =
         Some (Inl e,
               (polled qid ss w)
                 \<lparr>trace := trace (polled qid ss w) @ [GetQueryExecution qid, LogInfo s],
                  polls := polls w + length ss + 1\<rparr>)"
proof -
  let ?w = "polled qid ss w"
  let ?qs = "if ss = [] then None else Some (last ss)"
  have qs: "?qs = None \<or> ?qs = Some ''QUEUED'' \<or> ?qs = Some ''RUNNING''"
    using assms(3) by (rule pending_last)
  have "status_at self (polls ?w) qid = Inr st"
    using assms(4) by simp
  then have "loop_body self query (Some r) ?w =
    (Raise e, ?w\<lparr>trace := trace ?w @ [GetQueryExecution qid, LogInfo s], polls := polls ?w + 1\<rparr>)"
    using assms(1,5,6,7)
    by (auto simp: loop_body_def subscript_opt_def status_at_def emit_def Let_def
        split: sum.splits)
  then have "while_loop self query (Some r) ?qs ?w =
         Some (Inl e, ?w\<lparr>trace := trace ?w @ [GetQueryExecution qid, LogInfo s],
                          polls := polls ?w + 1\<rparr>)"
    using qs by (subst while_loop.simps) auto
  then show ?thesis
    using while_loop_pending[OF assms(1-3), of None query] by simp
qed

text \<open>
  Claim C1. Every run whose first terminal state is \<^verbatim>\<open>FAILED\<close> or \<^verbatim>\<open>CANCELLED\<close> is to end in
  the error whose message holds the query text, the state and the reason. The code builds
  that message, but it reads \<^verbatim>\<open>query_status['StateChangeReason']\<close> without a guard, and the
  service may leave that key out. Here the answers are \<^verbatim>\<open>RUNNING\<close>, then \<^verbatim>\<open>CANCELLED\<close> without
  a reason: \<^verbatim>\<open>run_query\<close> ends with \<^verbatim>\<open>KeyError\<close> on the key, an exception that carries neither
  the query text nor the state.
\<close>

theorem run_query_cancelled_without_reason:
  "run_query (mock (Inr accepted) [(''RUNNING'', None), (''CANCELLED'', None)] (Inl not_found))
     ''SELECT 1'' world0 =
   Some (Inl (KeyError ''StateChangeReason''),
         \<lparr>trace =
            [StartQueryExecution ''SELECT 1'' ''db'' ''s3://results/out/'',
             Print ''Execution ID: q-1'',
             GetQueryExecution ''q-1'', LogInfo ''RUNNING'', Sleep 1,
             GetQueryExecution ''q-1'', LogInfo ''CANCELLED''],
          polls = 2, files = Map.empty\<rparr>)"
proof -
  let ?self = "mock (Inr accepted) [(''RUNNING'', None), (''CANCELLED'', None)] (Inl not_found)"
  let ?w = "submitted ?self ''SELECT 1'' ''q-1'' world0"
  have lc: "load_conf ?self ''SELECT 1'' world0 = (Some accepted, ?w)"
    by (rule load_conf_accepted) (simp_all add: mock_def accepted_def subscript_def)
  have "while_loop ?self ''SELECT 1'' (Some accepted) None ?w =
         Some (Inl (KeyError ''StateChangeReason''),
               (polled ''q-1'' [''RUNNING''] ?w)
                 \<lparr>trace := trace (polled ''q-1'' [''RUNNING''] ?w) @
                    [GetQueryExecution ''q-1'', LogInfo ''CANCELLED''],
                  polls := polls ?w + length [''RUNNING''] + 1\<rparr>)"
    by (rule while_loop_no_reason[where st = "[(''State'', ''CANCELLED'')]"])
      (simp_all add: mock_def scripted_def status_reply_def state_at_def status_at_def
         subscript_def accepted_def world0_def)
  then have "run_query ?self ''SELECT 1'' world0 =
         Some (Inl (KeyError ''StateChangeReason''),
               (polled ''q-1'' [''RUNNING''] ?w)
                 \<lparr>trace := trace (polled ''q-1'' [''RUNNING''] ?w) @
                    [GetQueryExecution ''q-1'', LogInfo ''CANCELLED''],
                  polls := polls ?w + length [''RUNNING''] + 1\<rparr>)"
    by (simp add: run_query_def lc)
  then show ?thesis
    by (simp add: polled_def submitted_def world0_def mock_def)
qed

subsection \<open>A query that succeeds at the third fetch\<close>

text \<open>
  Claim C2. The submission is accepted and three successive status fetches answer
  \<^verbatim>\<open>QUEUED\<close>, \<^verbatim>\<open>RUNNING\<close>, \<^verbatim>\<open>SUCCEEDED\<close>. Then \<^verbatim>\<open>run_query\<close> returns the response, without
  an exception, and what it did in between is exactly this: three status fetches, one
  sleep of one second after each of the first two, none after the third.
\<close>

theorem run_query_three_polls:
  assumes "start_query_execution (athena_client self) query (database self) (s3_output self) = Inr r"
    and "subscript r ''QueryExecutionId'' = Inr qid"
    and "state_at self (polls w) qid = Inr ''QUEUED''"
    and "state_at self (polls w + 1) qid = Inr ''RUNNING''"
    and "state_at self (polls w + 2) qid = Inr ''SUCCEEDED''"
  shows "run_query self query w =
         Some (Inr (Some r),
               w\<lparr>trace := trace w @
                    [StartQueryExecution query (database self) (s3_output self),
                     Print (''Execution ID: '' @ qid),
                     GetQueryExecution qid, LogInfo ''QUEUED'', Sleep 1,
                     GetQueryExecution qid, LogInfo ''RUNNING'', Sleep 1,
                     GetQueryExecution qid, LogInfo ''SUCCEEDED'',
                     Print ''Query finished.''],
                 polls := polls w + 3\<rparr>)"
proof -
  let ?w = "submitted self query qid w"
  let ?ss = "[''QUEUED'', ''RUNNING'']"
  have pending: "\<forall>i<length ?ss. state_at self (polls ?w + i) qid = Inr (?ss ! i)"
    using assms(3,4) by (simp add: less_Suc_eq)
  have last: "state_at self (polls ?w + length ?ss) qid = Inr ''SUCCEEDED''"
    using assms(5) by simp
  have "while_loop self query (Some r) None ?w =
         Some (Inr (),
               (polled qid ?ss ?w)
                 \<lparr>trace := trace (polled qid ?ss ?w) @ [GetQueryExecution qid, LogInfo ''SUCCEEDED''],
                  polls := polls ?w + length ?ss + 1\<rparr>)"
    using assms(2) pending _ last by (rule while_loop_succeeded) simp
  then show ?thesis
    by (simp add: run_query_def load_conf_accepted[OF assms(1,2)] polled_def submitted_def emit_def)
qed

theorem run_query_three_polls_witness:
  "run_query
     (mock (Inr accepted) [(''QUEUED'', None), (''RUNNING'', None), (''SUCCEEDED'', None)]
        (Inl not_found))
     ''SELECT 1'' world0 =
   Some (Inr (Some accepted),
         \<lparr>trace =
            [StartQueryExecution ''SELECT 1'' ''db'' ''s3://results/out/'',
             Print ''Execution ID: q-1'',
             GetQueryExecution ''q-1'', LogInfo ''QUEUED'', Sleep 1,
             GetQueryExecution ''q-1'', LogInfo ''RUNNING'', Sleep 1,
             GetQueryExecution ''q-1'', LogInfo ''SUCCEEDED'',
             Print ''Query finished.''],
          polls = 3, files = Map.empty\<rparr>)"
  using run_query_three_polls
    [where self = "mock (Inr accepted)
                     [(''QUEUED'', None), (''RUNNING'', None), (''SUCCEEDED'', None)]
                     (Inl not_found)"
       and query = "''SELECT 1''" and r = accepted and qid = "''q-1''" and w = world0]
  by (simp add: mock_def scripted_def status_reply_def state_at_def status_at_def subscript_def
      accepted_def world0_def)

subsection \<open>A state outside the vocabulary\<close>

text \<open>
  Claim C9. The submission is accepted and the status fetches answer \<^verbatim>\<open>QUEUED\<close> or
  \<^verbatim>\<open>RUNNING\<close> any number of times, then a state \<open>s\<close> that is none of \<^verbatim>\<open>QUEUED\<close>,
  \<^verbatim>\<open>RUNNING\<close>, \<^verbatim>\<open>SUCCEEDED\<close>, \<^verbatim>\<open>FAILED\<close>, \<^verbatim>\<open>CANCELLED\<close>. Then \<^verbatim>\<open>run_query\<close> logs \<open>s\<close>, sleeps
  once, makes no further fetch, prints that the query finished and returns the response of
  the submission, as it does for a query that succeeded. It raises nothing.
\<close>

theorem run_query_unknown_state_returns:
  assumes "start_query_execution (athena_client self) query (database self) (s3_output self) = Inr r"
    and "subscript r ''QueryExecutionId'' = Inr qid"
    and "\<forall>i<length ss. state_at self (polls w + i) qid = Inr (ss ! i)"
    and "set ss \<subseteq> {''QUEUED'', ''RUNNING''}"
    and "state_at self (polls w + length ss) qid = Inr s"
    and "s \<notin> {''QUEUED'', ''RUNNING'', ''SUCCEEDED'', ''FAILED'', ''CANCELLED''}"
  shows "run_query self query w =
         Some (Inr (Some r),
               (polled qid ss (submitted self query qid w))
                 \<lparr>trace := trace (polled qid ss (submitted self query qid w)) @
                    [GetQueryExecution qid, LogInfo s, Sleep 1, Print ''Query finished.''],
                  polls := polls w + length ss + 1\<rparr>)"
proof -
  let ?w = "submitted self query qid w"
  have "while_loop self query (Some r) None ?w = Some (Inr (), polled qid (ss @ [s]) ?w)"
    using assms(2-) by (intro while_loop_unknown) simp_all
  then show ?thesis
    by (simp add: run_query_def load_conf_accepted[OF assms(1,2)] polled_def emit_def)
qed

theorem run_query_unknown_state_returns_witness:
  "run_query
     (mock (Inr accepted) [(''QUEUED'', None), (''PAUSED'', None), (''FAILED'', Some ''late'')]
        (Inl not_found))
     ''SELECT 1'' world0 =
   Some (Inr (Some accepted),
         \<lparr>trace =
            [StartQueryExecution ''SELECT 1'' ''db'' ''s3://results/out/'',
             Print ''Execution ID: q-1'',
             GetQueryExecution ''q-1'', LogInfo ''QUEUED'', Sleep 1,
             GetQueryExecution ''q-1'', LogInfo ''PAUSED'', Sleep 1,
             Print ''Query finished.''],
          polls = 2, files = Map.empty\<rparr>)"
  using run_query_unknown_state_returns
    [where self = "mock (Inr accepted)
                     [(''QUEUED'', None), (''PAUSED'', None), (''FAILED'', Some ''late'')]
                     (Inl not_found)"
       and query = "''SELECT 1''" and r = accepted and qid = "''q-1''" and w = world0
       and ss = "[''QUEUED'']" and s = "''PAUSED''"]
  by (simp add: mock_def scripted_def status_reply_def state_at_def status_at_def subscript_def
      accepted_def world0_def polled_def submitted_def)

subsection \<open>A submission that fails\<close>

text \<open>
  Claim C4. Whatever exception the call \<^verbatim>\<open>start_query_execution\<close> raises, \<^verbatim>\<open>load_conf\<close>
  prints it and returns \<^verbatim>\<open>None\<close>; the exception does not reach the caller.
\<close>

theorem load_conf_swallows:
  assumes "start_query_execution (athena_client self) query (database self) (s3_output self) = Inl e"
  shows "load_conf self query w =
         (None, w\<lparr>trace := trace w @
                     [StartQueryExecution query (database self) (s3_output self), PrintExn e]\<rparr>)"
  using assms by (simp add: load_conf_def emit_def)

theorem load_conf_swallows_witness:
  "load_conf (mock (Inl (OtherError ''EndpointConnectionError'' ''no route'')) [] (Inl not_found))
     ''SELECT 1'' world0 =
   (None,
    \<lparr>trace = [StartQueryExecution ''SELECT 1'' ''db'' ''s3://results/out/'',
              PrintExn (OtherError ''EndpointConnectionError'' ''no route'')],
     polls = 0, files = Map.empty\<rparr>)"
  using load_conf_swallows
    [where self = "mock (Inl (OtherError ''EndpointConnectionError'' ''no route'')) [] (Inl not_found)"
       and query = "''SELECT 1''" and e = "OtherError ''EndpointConnectionError'' ''no route''"
       and w = world0]
  by (simp add: mock_def world0_def)

text \<open>
  Claim C8. When \<^verbatim>\<open>load_conf\<close> returns \<^verbatim>\<open>None\<close>, \<^verbatim>\<open>run_query\<close> enters the loop, since
  \<^verbatim>\<open>query_state\<close> is \<^verbatim>\<open>None\<close>, and the subscript \<^verbatim>\<open>res["QueryExecutionId"]\<close> raises
  \<^verbatim>\<open>TypeError\<close> before any status is fetched. So \<^verbatim>\<open>run_query\<close> ends with that exception and
  never hands \<^verbatim>\<open>None\<close> to its caller.
\<close>

theorem run_query_after_failed_submission:
  assumes "fst (load_conf self query w) = None"
  shows "run_query self query w =
         Some (Inl (TypeError (CHR 0x27 # ''NoneType' object is not subscriptable'')),
               snd (load_conf self query w))"
proof -
  obtain w1 where lc: "load_conf self query w = (None, w1)"
    using assms by (cases "load_conf self query w") simp
  have "loop_body self query None w1 =
        (Raise (TypeError (CHR 0x27 # ''NoneType' object is not subscriptable'')), w1)"
    by (simp add: loop_body_def subscript_opt_def)
  then have "while_loop self query None None w1 =
        Some (Inl (TypeError (CHR 0x27 # ''NoneType' object is not subscriptable'')), w1)"
    by (subst while_loop.simps) simp
  then show ?thesis
    by (simp add: run_query_def lc)
qed

theorem run_query_after_failed_submission_witness:
  "run_query (mock (Inl (OtherError ''EndpointConnectionError'' ''no route''))
                [(''SUCCEEDED'', None)] (Inl not_found))
     ''SELECT 1'' world0 =
   Some (Inl (TypeError (CHR 0x27 # ''NoneType' object is not subscriptable'')),
         \<lparr>trace = [StartQueryExecution ''SELECT 1'' ''db'' ''s3://results/out/'',
                   PrintExn (OtherError ''EndpointConnectionError'' ''no route'')],
          polls = 0, files = Map.empty\<rparr>)"
  using run_query_after_failed_submission
    [where self = "mock (Inl (OtherError ''EndpointConnectionError'' ''no route''))
                     [(''SUCCEEDED'', None)] (Inl not_found)"
       and query = "''SELECT 1''" and w = world0]
  by (simp add: load_conf_def mock_def world0_def emit_def)

subsection \<open>Reading the chunks\<close>

lemma for_chunk_eq:
  "for_chunk chunks df_parts =
     (case raised chunks of
        Some e \<Rightarrow> Inl e
      | None \<Rightarrow> Inr (df_parts @ map chunk_processing (yielded chunks)))"
  by (induction chunks df_parts rule: for_chunk.induct) (simp_all split: option.splits)

lemma yielded_yields [simp]: "yielded (yields cs) = cs"
  by (induction cs) (simp_all add: yields_def)

lemma raised_yields [simp]: "raised (yields cs) = None"
  by (induction cs) (simp_all add: yields_def)

lemma map_chunk_processing [simp]: "map chunk_processing cs = cs"
  by (induction cs) (simp_all add: chunk_processing_def)

subsection \<open>\<^verbatim>\<open>process_result\<close> after a download that worked\<close>

lemma process_result_downloaded:
  assumes "subscript_opt res ''QueryExecutionId'' = Inr qid"
    and "download_file (s3_client self) (s3_bucket self) (qid @ ''.csv'') = Inr content"
  shows "process_result read_csv self res w =
         (parsed read_csv content,
          w\<lparr>trace := trace w @
               [DownloadFile (s3_bucket self) (qid @ ''.csv'') (qid @ ''.csv''),
                ReadCsv (qid @ ''.csv'') 10000000,
                Remove (qid @ ''.csv'')],
            files := (files w)((qid @ ''.csv'') := None)\<rparr>)"
  using assms
  by (auto simp: process_result_def read_and_concat_def os_remove_def parsed_def for_chunk_eq
      emit_def Let_def split: sum.splits option.splits)

lemma process_result_download_first:
  assumes "subscript_opt res ''QueryExecutionId'' = Inr qid"
  shows "prefix (trace w @ [DownloadFile (s3_bucket self) (qid @ ''.csv'') (qid @ ''.csv'')])
           (trace (snd (process_result read_csv self res w)))"
proof (cases "download_file (s3_client self) (s3_bucket self) (qid @ ''.csv'')")
  case (Inr content)
  show ?thesis
    by (simp add: process_result_downloaded[OF assms Inr])
next
  case (Inl e)
  then show ?thesis
    using assms
    by (cases e) (simp_all add: process_result_def Let_def emit_def split: sum.splits)
qed

subsection \<open>The handle that \<^verbatim>\<open>run_query\<close> returns\<close>

text \<open>
  Claim C7. The submission is accepted with response \<open>r\<close> and the status fetches answer
  \<^verbatim>\<open>QUEUED\<close> or \<^verbatim>\<open>RUNNING\<close> any number of times, then \<^verbatim>\<open>SUCCEEDED\<close>. Then \<^verbatim>\<open>run_query\<close>
  returns, and what it returns is \<open>r\<close> itself. \<^verbatim>\<open>process_result\<close>, given that value, first asks
  the blob store for the key made of the \<^verbatim>\<open>QueryExecutionId\<close> of \<open>r\<close> followed by \<^verbatim>\<open>.csv\<close>,
  to be stored in a local file of the same name.
\<close>

theorem run_query_returns_submission_handle:
  assumes "start_query_execution (athena_client self) query (database self) (s3_output self) = Inr r"
    and "subscript r ''QueryExecutionId'' = Inr qid"
    and "\<forall>i<length ss. state_at self (polls w + i) qid = Inr (ss ! i)"
    and "set ss \<subseteq> {''QUEUED'', ''RUNNING''}"
    and "state_at self (polls w + length ss) qid = Inr ''SUCCEEDED''"
  shows "run_query self query w = Some (Inr (Some r), succeeded self query qid ss w)
       \<and> prefix (trace (succeeded self query qid ss w) @
                  [DownloadFile (s3_bucket self) (qid @ ''.csv'') (qid @ ''.csv'')])
           (trace (snd (process_result read_csv self (Some r) (succeeded self query qid ss w))))"
proof -
  let ?w = "submitted self query qid w"
  have "while_loop self query (Some r) None ?w =
         Some (Inr (),
               (polled qid ss ?w)
                 \<lparr>trace := trace (polled qid ss ?w) @ [GetQueryExecution qid, LogInfo ''SUCCEEDED''],
                  polls := polls ?w + length ss + 1\<rparr>)"
    using assms(2-) by (intro while_loop_succeeded) simp_all
  then have run: "run_query self query w = Some (Inr (Some r), succeeded self query qid ss w)"
    by (simp add: run_query_def load_conf_accepted[OF assms(1,2)] succeeded_def emit_def)
  have "subscript_opt (Some r) ''QueryExecutionId'' = Inr qid"
    using assms(2) by (simp add: subscript_opt_def)
  then have "prefix (trace (succeeded self query qid ss w) @
                      [DownloadFile (s3_bucket self) (qid @ ''.csv'') (qid @ ''.csv'')])
               (trace (snd (process_result read_csv self (Some r) (succeeded self query qid ss w))))"
    by (rule process_result_download_first)
  with run show ?thesis by simp
qed

theorem run_query_returns_submission_handle_witness:
  "run_query (mock (Inr accepted) [(''RUNNING'', None), (''SUCCEEDED'', None)] (Inl not_found))
     ''SELECT 1'' world0 =
   Some (Inr (Some accepted),
         \<lparr>trace =
            [StartQueryExecution ''SELECT 1'' ''db'' ''s3://results/out/'',
             Print ''Execution ID: q-1'',
             GetQueryExecution ''q-1'', LogInfo ''RUNNING'', Sleep 1,
             GetQueryExecution ''q-1'', LogInfo ''SUCCEEDED'',
             Print ''Query finished.''],
          polls = 2, files = Map.empty\<rparr>)
   \<and> prefix
       [StartQueryExecution ''SELECT 1'' ''db'' ''s3://results/out/'',
        Print ''Execution ID: q-1'',
        GetQueryExecution ''q-1'', LogInfo ''RUNNING'', Sleep 1,
        GetQueryExecution ''q-1'', LogInfo ''SUCCEEDED'',
        Print ''Query finished.'',
        DownloadFile ''results'' ''q-1.csv'' ''q-1.csv'']
       (trace (snd (process_result (reads StopIteration)
          (mock (Inr accepted) [(''RUNNING'', None), (''SUCCEEDED'', None)] (Inl not_found))
          (Some accepted)
          \<lparr>trace =
            [StartQueryExecution ''SELECT 1'' ''db'' ''s3://results/out/'',
             Print ''Execution ID: q-1'',
             GetQueryExecution ''q-1'', LogInfo ''RUNNING'', Sleep 1,
             GetQueryExecution ''q-1'', LogInfo ''SUCCEEDED'',
             Print ''Query finished.''],
          polls = 2, files = Map.empty\<rparr>)))"
  using run_query_returns_submission_handle
    [where self = "mock (Inr accepted) [(''RUNNING'', None), (''SUCCEEDED'', None)] (Inl not_found)"
       and query = "''SELECT 1''" and r = accepted and qid = "''q-1''" and w = world0
       and ss = "[''RUNNING'']" and read_csv = "reads StopIteration"]
  by (simp add: mock_def scripted_def status_reply_def state_at_def status_at_def subscript_def
      accepted_def world0_def succeeded_def polled_def submitted_def numeral_2_eq_2)

subsection \<open>A result file that is not there\<close>

text \<open>
  Claim C3, as the code has it. When the download raises a \<^verbatim>\<open>ClientError\<close> whose error code is
  \<^verbatim>\<open>404\<close>, \<^verbatim>\<open>process_result\<close> prints a line and returns \<^verbatim>\<open>None\<close>: no exception, and no table
  either. Nothing is read and no file is removed.
\<close>

theorem process_result_not_found:
  assumes "subscript_opt res ''QueryExecutionId'' = Inr qid"
    and "download_file (s3_client self) (s3_bucket self) (qid @ ''.csv'') = Inl (ClientError resp m)"
    and "subscript resp ''Error'' = Inr err"
    and "subscript err ''Code'' = Inr ''404''"
  shows "process_result read_csv self res w =
         (Inr None,
          w\<lparr>trace := trace w @
               [DownloadFile (s3_bucket self) (qid @ ''.csv'') (qid @ ''.csv''),
                Print (''Simpson export file not found at %s. '' @ qid @ ''.csv'')]\<rparr>)"
  using assms by (simp add: process_result_def emit_def Let_def)

theorem process_result_not_found_witness:
  "process_result (reads StopIteration) (mock (Inr accepted) [] (Inl not_found)) (Some accepted) world0 =
   (Inr None,
    \<lparr>trace = [DownloadFile ''results'' ''q-1.csv'' ''q-1.csv'',
              Print ''Simpson export file not found at %s. q-1.csv''],
     polls = 0, files = Map.empty\<rparr>)"
  using process_result_not_found
    [where self = "mock (Inr accepted) [] (Inl not_found)" and res = "Some accepted"
       and qid = "''q-1''" and w = world0 and read_csv = "reads StopIteration"
       and resp = "[(''Error'', [(''Code'', ''404''), (''Message'', ''Not Found'')])]"
       and m = "''An error occurred (404) when calling the HeadObject operation: Not Found''"
       and err = "[(''Code'', ''404''), (''Message'', ''Not Found'')]"]
  by (simp add: mock_def not_found_def subscript_opt_def subscript_def accepted_def world0_def)

text \<open>
  The value returned there is \<^verbatim>\<open>None\<close>, which is not the table with no rows.
\<close>

theorem process_result_not_found_counterexample:
  "fst (process_result (reads StopIteration) (mock (Inr accepted) [] (Inl not_found))
          (Some accepted) world0) = Inr None
   \<and> fst (process_result (reads StopIteration) (mock (Inr accepted) [] (Inl not_found))
          (Some accepted) world0) \<noteq> Inr (Some [])"
  by (simp add: process_result_def mock_def not_found_def subscript_opt_def subscript_def
      accepted_def world0_def emit_def Let_def)

subsection \<open>The scratch file\<close>

text \<open>
  Claim C5. When the download worked, the local file named after the execution id is gone
  once \<^verbatim>\<open>process_result\<close> has ended, however it ended. When the reader raises, at once or
  after some chunks, that exception is the outcome of \<^verbatim>\<open>process_result\<close>; otherwise the outcome
  is that of \<^verbatim>\<open>pd.concat\<close> on the processed chunks.
\<close>

theorem process_result_removes_scratch_file:
  assumes "subscript_opt res ''QueryExecutionId'' = Inr qid"
    and "download_file (s3_client self) (s3_bucket self) (qid @ ''.csv'') = Inr content"
  shows "files (snd (process_result read_csv self res w)) (qid @ ''.csv'') = None
       \<and> (case read_csv content 10000000 of
            Inl e \<Rightarrow> fst (process_result read_csv self res w) = Inl e
          | Inr chunks \<Rightarrow>
              (case raised chunks of
                 Some e \<Rightarrow> fst (process_result read_csv self res w) = Inl e
               | None \<Rightarrow>
                   fst (process_result read_csv self res w) =
                     (case pd_concat (map chunk_processing (yielded chunks)) of
                        Inl e \<Rightarrow> Inl e
                      | Inr df \<Rightarrow> Inr (Some df))))"
  by (simp add: process_result_downloaded[OF assms] parsed_def split: sum.splits option.splits)

theorem process_result_removes_scratch_file_witness:
  "files (snd (process_result
                 (reads (Yield [1, 2] (Raises (OtherError ''ParserError'' ''Error tokenizing data''))))
                 (mock (Inr accepted) [] (Inr ''a\<newline>1\<newline>2\<newline>3,4\<newline>''))
                 (Some accepted) world0)) ''q-1.csv'' = None
   \<and> fst (process_result
            (reads (Yield [1, 2] (Raises (OtherError ''ParserError'' ''Error tokenizing data''))))
            (mock (Inr accepted) [] (Inr ''a\<newline>1\<newline>2\<newline>3,4\<newline>''))
            (Some accepted) world0)
       = Inl (OtherError ''ParserError'' ''Error tokenizing data'')"
  using process_result_removes_scratch_file
    [where self = "mock (Inr accepted) [] (Inr ''a\<newline>1\<newline>2\<newline>3,4\<newline>'')"
       and res = "Some accepted" and qid = "''q-1''" and w = world0
       and content = "''a\<newline>1\<newline>2\<newline>3,4\<newline>''"
       and read_csv = "reads (Yield [1, 2] (Raises (OtherError ''ParserError'' ''Error tokenizing data'')))"]
  by (simp add: mock_def subscript_opt_def subscript_def accepted_def reads_def)

subsection \<open>Assembling the chunks\<close>

text \<open>
  Claim C6. When the download worked and the reader, asked for chunks of 10000000 rows,
  yields the chunks \<open>cs\<close>, at least one, and stops, \<^verbatim>\<open>process_result\<close> returns the table whose
  rows are those of the chunks, one chunk after the other in the order read. Its number of
  rows is the sum of the sizes of the chunks, and \<^verbatim>\<open>chunk_processing\<close> changed none of them.
\<close>

theorem process_result_concatenates_chunks:
  assumes "subscript_opt res ''QueryExecutionId'' = Inr qid"
    and "download_file (s3_client self) (s3_bucket self) (qid @ ''.csv'') = Inr content"
    and "read_csv content 10000000 = Inr (yields cs)"
    and "cs \<noteq> []"
  shows "fst (process_result read_csv self res w) = Inr (Some (concat cs))
       \<and> length (concat cs) = sum_list (map length cs)
       \<and> map chunk_processing cs = cs"
  using assms(3,4)
  by (simp add: process_result_downloaded[OF assms(1,2)] parsed_def pd_concat_def length_concat)

theorem process_result_concatenates_chunks_witness:
  "fst (process_result (reads (Yield [1, 2] (Yield [] (Yield [3] StopIteration))))
          (mock (Inr accepted) [] (Inr ''a\<newline>1\<newline>2\<newline>3\<newline>'')) (Some accepted) world0)
     = Inr (Some [1, 2, 3])
   \<and> length (concat [[1, 2], [], [3 :: nat]]) = sum_list (map length [[1, 2], [], [3 :: nat]])
   \<and> map chunk_processing [[1, 2], [], [3 :: nat]] = [[1, 2], [], [3]]"
  using process_result_concatenates_chunks
    [where self = "mock (Inr accepted) [] (Inr ''a\<newline>1\<newline>2\<newline>3\<newline>'')"
       and res = "Some accepted" and qid = "''q-1''" and w = world0
       and content = "''a\<newline>1\<newline>2\<newline>3\<newline>''"
       and read_csv = "reads (Yield [1, 2] (Yield [] (Yield [3] StopIteration)))"
       and cs = "[[1, 2], [], [3]]"]
  by (simp add: mock_def subscript_opt_def subscript_def accepted_def reads_def yields_def)

subsection \<open>Results without rows\<close>

text \<open>
  Claim C10, as the code has it. After a download that worked the scratch file is removed,
  whatever the reader does. When the reader gives no chunk at all (it raises at once, as
  \<^verbatim>\<open>pd.read_csv\<close> does on an empty file, or its iterator ends or raises before a first chunk),
  \<^verbatim>\<open>process_result\<close> ends with an exception: that of the reader, or the \<^verbatim>\<open>ValueError\<close> of
  \<^verbatim>\<open>pd.concat\<close> on the empty list. When the reader yields one chunk without rows and stops, as
  it does on a file with a header line only, \<^verbatim>\<open>process_result\<close> returns the table without
  rows and raises nothing.
\<close>

theorem process_result_without_rows:
  assumes "subscript_opt res ''QueryExecutionId'' = Inr qid"
    and "download_file (s3_client self) (s3_bucket self) (qid @ ''.csv'') = Inr content"
  shows "files (snd (process_result read_csv self res w)) (qid @ ''.csv'') = None
       \<and> ((case read_csv content 10000000 of Inl e \<Rightarrow> True | Inr chunks \<Rightarrow> yielded chunks = [])
            \<longrightarrow> fst (process_result read_csv self res w) =
                  Inl (case read_csv content 10000000 of
                         Inl e \<Rightarrow> e
                       | Inr chunks \<Rightarrow>
                           (case raised chunks of
                              Some e \<Rightarrow> e
                            | None \<Rightarrow> ValueError ''No objects to concatenate'')))
       \<and> (read_csv content 10000000 = Inr (Yield [] StopIteration)
            \<longrightarrow> fst (process_result read_csv self res w) = Inr (Some []))"
  by (auto simp: process_result_downloaded[OF assms] parsed_def pd_concat_def
      chunk_processing_def split: sum.splits option.splits)

theorem process_result_without_rows_witness:
  "files (snd (process_result empty_file (mock (Inr accepted) [] (Inr '''')) (Some accepted) world0))
     ''q-1.csv'' = None
   \<and> fst (process_result empty_file (mock (Inr accepted) [] (Inr '''')) (Some accepted) world0)
       = Inl (OtherError ''EmptyDataError'' ''No columns to parse from file'')
   \<and> files (snd (process_result header_only (mock (Inr accepted) [] (Inr ''a,b\<newline>''))
                   (Some accepted) world0)) ''q-1.csv'' = None
   \<and> fst (process_result header_only (mock (Inr accepted) [] (Inr ''a,b\<newline>''))
            (Some accepted) world0) = Inr (Some [])"
  using process_result_without_rows
    [where self = "mock (Inr accepted) [] (Inr '''')"
       and res = "Some accepted" and qid = "''q-1''" and w = world0
       and content = "''''" and read_csv = empty_file]
    process_result_without_rows
    [where self = "mock (Inr accepted) [] (Inr ''a,b\<newline>'')"
       and res = "Some accepted" and qid = "''q-1''" and w = world0
       and content = "''a,b\<newline>''" and read_csv = header_only]
  by (simp add: mock_def subscript_opt_def subscript_def accepted_def empty_file_def
      header_only_def)

text \<open>
  A file with a header line only: the outcome is the table without rows, not an exception.
\<close>

theorem process_result_header_only_counterexample:
  "fst (process_result header_only (mock (Inr accepted) [] (Inr ''a,b\<newline>''))
          (Some accepted) world0) = Inr (Some [])
   \<and> \<not> isl (fst (process_result header_only (mock (Inr accepted) [] (Inr ''a,b\<newline>''))
                   (Some accepted) world0))"
  by (simp add: process_result_def read_and_concat_def os_remove_def pd_concat_def
      chunk_processing_def header_only_def mock_def subscript_opt_def subscript_def
      accepted_def world0_def emit_def Let_def)

end
